theory Spec2Isabelle
  imports Main "HOL-Library.Sublist"
begin

section \<open>Text, characters and the string helpers of the script\<close>

text \<open>
  The model of \<^verbatim>\<open>scripts/dhcp_reservation_manager.py\<close>. Python strings are modelled as
  \<^typ>\<open>string\<close>: lists of characters with code points 0 to 255. The character classes
  below are the ones the interpreter uses on that range.
\<close>

abbreviation nl :: char where "nl \<equiv> CHR 0x0A"

text \<open>\<^verbatim>\<open>str.isspace\<close>, which is also the class \<^verbatim>\<open>\s\<close> of \<^verbatim>\<open>re\<close> on \<^verbatim>\<open>str\<close> patterns
  and the set removed by \<^verbatim>\<open>str.strip()\<close>.\<close>

definition is_space :: "char \<Rightarrow> bool" where
  "is_space c \<longleftrightarrow> c \<in> set [CHR 0x09, CHR 0x0A, CHR 0x0B, CHR 0x0C, CHR 0x0D,
                          CHR 0x1C, CHR 0x1D, CHR 0x1E, CHR 0x1F, CHR 0x20, CHR 0x85, CHR 0xA0]"

text \<open>The class \<^verbatim>\<open>\d\<close>: the decimal digits.\<close>

definition is_digit :: "char \<Rightarrow> bool" where
  "is_digit c \<longleftrightarrow> c \<in> set ''0123456789''"

definition digit_val :: "char \<Rightarrow> int" where
  "digit_val c = int (of_char c) - 48"

text \<open>\<^verbatim>\<open>str.lower()\<close> on one character: the ASCII capitals and the accented capitals
  0xC0 to 0xDE (without the multiplication sign 0xD7) move up by 32.\<close>

definition py_lower :: "char \<Rightarrow> char" where
  "py_lower c =
     (let n = (of_char c :: nat)
      in if (65 \<le> n \<and> n \<le> 90) \<or> (192 \<le> n \<and> n \<le> 222 \<and> n \<noteq> 215)
         then char_of (n + 32) else c)"

definition lower :: "string \<Rightarrow> string" where
  "lower s = map py_lower s"

definition strip :: "string \<Rightarrow> string" where
  "strip s = rev (dropWhile is_space (rev (dropWhile is_space s)))"

definition replace_char :: "char \<Rightarrow> char \<Rightarrow> string \<Rightarrow> string" where
  "replace_char a b s = map (\<lambda>c. if c = a then b else c) s"

text \<open>\<^verbatim>\<open>s.split(sep)\<close> with a one-character separator: never an empty list.\<close>

fun split_acc :: "char \<Rightarrow> string \<Rightarrow> string \<Rightarrow> string list" where
  "split_acc sep acc [] = [rev acc]"
| "split_acc sep acc (c # cs) =
     (if c = sep then rev acc # split_acc sep [] cs else split_acc sep (c # acc) cs)"

definition split :: "char \<Rightarrow> string \<Rightarrow> string list" where
  "split sep s = split_acc sep [] s"

subsection \<open>\<^verbatim>\<open>int(str)\<close>\<close>

text \<open>
  \<^verbatim>\<open>int(p)\<close> on a string: optional blanks, an optional sign, decimal digits in which a
  single underscore may stand between two digits, optional blanks. The blanks it skips are
  9 to 13, 32, 0x85 and 0xA0 (not 0x1C to 0x1F). Anything else raises \<^verbatim>\<open>ValueError\<close>,
  here \<^term>\<open>None\<close>. The interpreter's limit on the number of digits is not modelled.
\<close>

definition int_blank :: "char \<Rightarrow> bool" where
  "int_blank c \<longleftrightarrow> c \<in> set [CHR 0x09, CHR 0x0A, CHR 0x0B, CHR 0x0C, CHR 0x0D, CHR 0x20,
                            CHR 0x85, CHR 0xA0]"

fun scan_digits :: "int \<Rightarrow> string \<Rightarrow> (int \<times> string) option" where
  "scan_digits v [] = Some (v, [])"
| "scan_digits v (c # cs) =
     (if is_digit c then scan_digits (10 * v + digit_val c) cs
      else if c = CHR ''_'' then
        (case cs of
           [] \<Rightarrow> None
         | d # ds \<Rightarrow> if is_digit d then scan_digits (10 * v + digit_val d) ds else None)
      else Some (v, c # cs))"

definition py_int :: "string \<Rightarrow> int option" where
  "py_int s =
     (let s1 = dropWhile int_blank s;
          neg = (case s1 of c # _ \<Rightarrow> c = CHR ''-'' | [] \<Rightarrow> False);
          s2 = (case s1 of c # r \<Rightarrow> if c = CHR ''+'' \<or> c = CHR ''-'' then r else s1 | [] \<Rightarrow> s1)
      in case s2 of
           [] \<Rightarrow> None
         | c # cs \<Rightarrow>
             if is_digit c then
               (case scan_digits (digit_val c) cs of
                  None \<Rightarrow> None
                | Some (v, s3) \<Rightarrow>
                    if dropWhile int_blank s3 = [] then Some (if neg then - v else v) else None)
             else None)"

section \<open>The backtracking matcher of \<^verbatim>\<open>re\<close>\<close>

text \<open>
  The patterns of the script use literals, character classes, \<^verbatim>\<open>^\<close> under
  \<^verbatim>\<open>MULTILINE\<close>, alternation, groups, and greedy or lazy repetition of a single
  character class. \<^verbatim>\<open>Rep greedy n P\<close> is \<^verbatim>\<open>P{n,}\<close> (greedy) or \<^verbatim>\<open>P{n,}?\<close> (lazy).

  A matcher state is the text already passed (reversed), the text ahead, and the spans of
  the groups closed so far. The matcher is the backtracking one: it calls its continuation
  at each way of matching, in the priority order of \<^verbatim>\<open>re\<close>, and returns the first
  success.
\<close>

datatype rx =
    Eps
  | Cls "char \<Rightarrow> bool"
  | Bol
  | Seq rx rx
  | Alt rx rx
  | Rep bool nat "char \<Rightarrow> bool"
  | Grp nat rx

type_synonym spans = "nat \<Rightarrow> (nat \<times> nat) option"
type_synonym mstate = "string \<times> string \<times> spans"

fun rep_lazy :: "(char \<Rightarrow> bool) \<Rightarrow> nat \<Rightarrow> (mstate \<Rightarrow> 'a option) \<Rightarrow> string \<Rightarrow> string \<Rightarrow> spans
    \<Rightarrow> 'a option" where
  "rep_lazy P n k pre [] g = (if n = 0 then k (pre, [], g) else None)"
| "rep_lazy P n k pre (c # cs) g =
     (if n = 0 then
        (case k (pre, c # cs, g) of
           Some r \<Rightarrow> Some r
         | None \<Rightarrow> if P c then rep_lazy P 0 k (c # pre) cs g else None)
      else if P c then rep_lazy P (n - 1) k (c # pre) cs g else None)"

fun rep_greedy :: "(char \<Rightarrow> bool) \<Rightarrow> nat \<Rightarrow> (mstate \<Rightarrow> 'a option) \<Rightarrow> string \<Rightarrow> string \<Rightarrow> spans
    \<Rightarrow> 'a option" where
  "rep_greedy P n k pre [] g = (if n = 0 then k (pre, [], g) else None)"
| "rep_greedy P n k pre (c # cs) g =
     (if P c then
        (case rep_greedy P (n - 1) k (c # pre) cs g of
           Some r \<Rightarrow> Some r
         | None \<Rightarrow> if n = 0 then k (pre, c # cs, g) else None)
      else if n = 0 then k (pre, c # cs, g) else None)"

fun rx_match :: "rx \<Rightarrow> (mstate \<Rightarrow> 'a option) \<Rightarrow> mstate \<Rightarrow> 'a option" where
  "rx_match Eps k st = k st"
| "rx_match (Cls P) k (pre, rest, g) =
     (case rest of [] \<Rightarrow> None | c # cs \<Rightarrow> if P c then k (c # pre, cs, g) else None)"
| "rx_match Bol k (pre, rest, g) =
     (if (case pre of [] \<Rightarrow> True | c # _ \<Rightarrow> c = nl) then k (pre, rest, g) else None)"
| "rx_match (Seq a b) k st = rx_match a (rx_match b k) st"
| "rx_match (Alt a b) k st =
     (case rx_match a k st of Some r \<Rightarrow> Some r | None \<Rightarrow> rx_match b k st)"
| "rx_match (Rep greedy n P) k (pre, rest, g) =
     (if greedy then rep_greedy P n k pre rest g else rep_lazy P n k pre rest g)"
| "rx_match (Grp i r) k (pre, rest, g) =
     rx_match r (\<lambda>(pre', rest', g'). k (pre', rest', g'(i \<mapsto> (length pre, length pre'))))
       (pre, rest, g)"

abbreviation Chr :: "char \<Rightarrow> rx" where
  "Chr c \<equiv> Cls (\<lambda>x. x = c)"

text \<open>A literal letter under \<^verbatim>\<open>IGNORECASE\<close>: the character of the text is compared in
  lower case with the (lower-case) letter of the pattern.\<close>

definition ci_eq :: "char \<Rightarrow> char \<Rightarrow> bool" where
  "ci_eq c x \<longleftrightarrow> py_lower x = c"

abbreviation ChrI :: "char \<Rightarrow> rx" where
  "ChrI c \<equiv> Cls (ci_eq c)"

text \<open>The classes \<^verbatim>\<open>\S\<close> and \<^verbatim>\<open>[\s\S]\<close>.\<close>

definition non_space :: "char \<Rightarrow> bool" where
  "non_space c \<longleftrightarrow> \<not> is_space c"


fun seqs :: "rx list \<Rightarrow> rx" where
  "seqs [] = Eps"
| "seqs (r # rs) = Seq r (seqs rs)"

definition lit :: "string \<Rightarrow> rx" where
  "lit s = seqs (map Chr s)"

definition lit_ci :: "string \<Rightarrow> rx" where
  "lit_ci s = seqs (map ChrI s)"

text \<open>\<^verbatim>\<open>pattern.search\<close>: the first position, from the left, at which the pattern
  matches; group 0 is the whole match. The result is the state at the end of the match.\<close>

fun rx_scan :: "rx \<Rightarrow> string \<Rightarrow> string \<Rightarrow> mstate option" where
  "rx_scan r pre [] = rx_match (Grp 0 r) Some (pre, [], Map.empty)"
| "rx_scan r pre (c # cs) =
     (case rx_match (Grp 0 r) Some (pre, c # cs, Map.empty) of
        Some m \<Rightarrow> Some m
      | None \<Rightarrow> rx_scan r (c # pre) cs)"


text \<open>\<^verbatim>\<open>re.fullmatch\<close>: a match from the start that ends at the end of the string.\<close>

definition rx_fullmatch :: "rx \<Rightarrow> string \<Rightarrow> bool" where
  "rx_fullmatch r s \<longleftrightarrow>
     rx_match r (\<lambda>(pre, rest, g). if rest = [] then Some () else None) ([], s, Map.empty) \<noteq> None"

text \<open>\<^verbatim>\<open>pattern.finditer\<close>: the matches from left to right, each search starting where
  the previous match ended. After an empty match the scan moves on by one character; the
  patterns of the script never match the empty string.\<close>

function rx_iter :: "rx \<Rightarrow> string \<Rightarrow> string \<Rightarrow> mstate list" where
  "rx_iter r pre rest =
     (case rx_scan r pre rest of
        None \<Rightarrow> []
      | Some m \<Rightarrow>
          if length (fst (snd m)) < length rest then m # rx_iter r (fst m) (fst (snd m))
          else (case rest of [] \<Rightarrow> [m] | c # cs \<Rightarrow> m # rx_iter r (c # pre) cs))"
  by pat_completeness auto
termination
  by (relation "measure (\<lambda>(r, pre, rest). length rest)") auto

definition rx_finditer :: "rx \<Rightarrow> string \<Rightarrow> mstate list" where
  "rx_finditer r s = rx_iter r [] s"



definition mgroup :: "mstate \<Rightarrow> nat \<Rightarrow> string" where
  "mgroup m i =
     (case snd (snd m) i of None \<Rightarrow> [] | Some (b, e) \<Rightarrow> take (e - b) (drop b (rev (fst m))))"

section \<open>Validators\<close>

text \<open>\<^verbatim>\<open>all(0 <= int(p) <= 255 for p in parts)\<close> stops at the first component out of
  range; \<^term>\<open>None\<close> is the \<^verbatim>\<open>ValueError\<close> of a component that does not parse.\<close>

fun all_octets :: "string list \<Rightarrow> bool option" where
  "all_octets [] = Some True"
| "all_octets (p # ps) =
     (case py_int p of
        None \<Rightarrow> None
      | Some n \<Rightarrow> if 0 \<le> n \<and> n \<le> 255 then all_octets ps else Some False)"

definition validate_ip_address :: "string \<Rightarrow> bool" where
  "validate_ip_address ip =
     (let parts = split CHR ''.'' ip
      in if length parts \<noteq> 4 then False
         else (case all_octets parts of None \<Rightarrow> False | Some b \<Rightarrow> b))"

definition is_hex :: "char \<Rightarrow> bool" where
  "is_hex c \<longleftrightarrow> c \<in> set ''0123456789abcdef''"

text \<open>\<^verbatim>\<open>[0-9a-f]{2}(:[0-9a-f]{2}){5}\<close>\<close>

definition mac_pattern :: rx where
  "mac_pattern =
     seqs ([Cls is_hex, Cls is_hex] @
       concat (replicate 5 [Chr CHR '':'', Cls is_hex, Cls is_hex]))"

definition normalize_mac :: "string \<Rightarrow> string option" where
  "normalize_mac mac =
     (let m = replace_char CHR ''-'' CHR '':'' (lower (strip mac))
      in if \<not> rx_fullmatch mac_pattern m then None else Some m)"

section \<open>Reservation blocks\<close>

text \<open>The expression
  \<^verbatim>\<open>f"{hostname}.{domain}" if domain and not hostname.endswith(f".{domain}") else hostname\<close>
  of \<^verbatim>\<open>build_reservation_block\<close>, \<^verbatim>\<open>add_reservation\<close> and \<^verbatim>\<open>remove_reservation\<close>.
  The domain is \<^verbatim>\<open>Optional[str]\<close>; \<^verbatim>\<open>None\<close> and the empty string are both false.\<close>

definition fqdn_of :: "string \<Rightarrow> string option \<Rightarrow> string" where
  "fqdn_of hostname domain =
     (case domain of
        None \<Rightarrow> hostname
      | Some d \<Rightarrow> if d \<noteq> [] \<and> \<not> suffix (''.'' @ d) hostname then hostname @ ''.'' @ d
                  else hostname)"

definition build_reservation_block :: "string \<Rightarrow> string \<Rightarrow> string \<Rightarrow> string option \<Rightarrow> string" where
  "build_reservation_block hostname mac ip domain =
     ''host '' @ fqdn_of hostname domain @ '' {'' @ [nl] @
     ''  hardware ethernet '' @ mac @ '';'' @ [nl] @
     ''  fixed-address '' @ ip @ '';'' @ [nl] @
     ''}'' @ [nl]"



text \<open>The class \<^verbatim>\<open>[0-9a-f:]\<close> under \<^verbatim>\<open>IGNORECASE\<close>, \<^verbatim>\<open>[\d.]\<close> and \<^verbatim>\<open>[^\}]\<close>.\<close>

definition hexcolon_ci :: "char \<Rightarrow> bool" where
  "hexcolon_ci c \<longleftrightarrow> c \<in> set ''0123456789abcdef:ABCDEF''"

definition digit_dot :: "char \<Rightarrow> bool" where
  "digit_dot c \<longleftrightarrow> is_digit c \<or> c = CHR ''.''"

definition not_close :: "char \<Rightarrow> bool" where
  "not_close c \<longleftrightarrow> c \<noteq> CHR ''}''"

text \<open>\<^verbatim>\<open>host\s+(\S+)\s*\{[^\}]*?hardware\s+ethernet\s+([0-9a-f:]+)\s*;[^\}]*?fixed-address\s+([\d.]+)\s*;[^\}]*?\}\<close>
  with \<^verbatim>\<open>MULTILINE | IGNORECASE | DOTALL\<close>.\<close>

definition reservation_pattern :: rx where
  "reservation_pattern =
     seqs [lit_ci ''host'', Rep True 1 is_space, Grp 1 (Rep True 1 non_space),
           Rep True 0 is_space, Chr CHR ''{'', Rep False 0 not_close,
           lit_ci ''hardware'', Rep True 1 is_space, lit_ci ''ethernet'', Rep True 1 is_space,
           Grp 2 (Rep True 1 hexcolon_ci), Rep True 0 is_space, Chr CHR '';'',
           Rep False 0 not_close,
           lit_ci ''fixed-address'', Rep True 1 is_space, Grp 3 (Rep True 1 digit_dot),
           Rep True 0 is_space, Chr CHR '';'', Rep False 0 not_close, Chr CHR ''}'']"

type_synonym reservation = "string \<times> string \<times> string"

definition match_triple :: "mstate \<Rightarrow> reservation" where
  "match_triple m = (mgroup m 1, lower (mgroup m 2), mgroup m 3)"

definition extract_all_reservations :: "string \<Rightarrow> reservation list" where
  "extract_all_reservations content =
     map match_triple (rx_finditer reservation_pattern content)"


section \<open>Mutation engine\<close>










section \<open>Safety pipeline: \<^verbatim>\<open>main\<close>\<close>







text \<open>\<^verbatim>\<open>mac or ''\<close> and the test \<^verbatim>\<open>if error:\<close> on an optional string.\<close>

definition or_empty :: "string option \<Rightarrow> string" where
  "or_empty x = (case x of None \<Rightarrow> [] | Some s \<Rightarrow> s)"








subsection \<open>Example runs\<close>





section \<open>Notions used in the proofs about the patterns\<close>

text \<open>\<open>first_path r st st'\<close>: the way through \<open>r\<close> from \<open>st\<close> that the matcher tries first
  ends in \<open>st'\<close>, so a continuation that accepts \<open>st'\<close> decides the match there.\<close>

definition first_path :: "rx \<Rightarrow> mstate \<Rightarrow> mstate \<Rightarrow> bool" where
  "first_path r st st' \<longleftrightarrow>
     (\<forall>k :: mstate \<Rightarrow> mstate option. k st' \<noteq> None \<longrightarrow> rx_match r k st = k st')"

text \<open>\<open>rejects r x\<close>: \<open>r\<close> cannot start on the character \<open>x\<close>.\<close>

definition rejects :: "rx \<Rightarrow> char \<Rightarrow> bool" where
  "rejects r x \<longleftrightarrow>
     (\<forall>(k :: mstate \<Rightarrow> mstate option) p xs g. rx_match r k (p, x # xs, g) = None)"

text \<open>A reservation block with \<^verbatim>\<open>hardware ethernet\<close> before \<^verbatim>\<open>fixed-address\<close>, in any
  layout: \<open>ws\<close> gives the ten stretches of white space between its tokens. The stretches
  after \<^verbatim>\<open>host\<close>, after the name, inside \<^verbatim>\<open>hardware ethernet\<close> and before the two
  values must not be empty.\<close>

definition block_layout :: "string list \<Rightarrow> string \<Rightarrow> string \<Rightarrow> string \<Rightarrow> string" where
  "block_layout ws name mac ip =
     ''host'' @ ws ! 0 @ name @ ws ! 1 @ ''{'' @ ws ! 2 @ ''hardware'' @ ws ! 3 @ ''ethernet'' @
     ws ! 4 @ mac @ ws ! 5 @ '';'' @ ws ! 6 @ ''fixed-address'' @ ws ! 7 @ ip @ ws ! 8 @ '';'' @
     ws ! 9 @ ''}''"


definition layout_ok :: "string list \<Rightarrow> bool" where
  "layout_ok ws \<longleftrightarrow>
     length ws = 10 \<and> list_all (list_all is_space) ws \<and>
     list_all (\<lambda>i. ws ! i \<noteq> []) [0, 1, 3, 4, 7]"

text \<open>The layout that \<^verbatim>\<open>build_reservation_block\<close> writes.\<close>

definition canonical_ws :: "string list" where
  "canonical_ws = ['' '', '' '', [nl] @ ''  '', '' '', '' '', [], [nl] @ ''  '', '' '', [], [nl]]"

section \<open>Properties\<close>

subsection \<open>Validators\<close>




subsection \<open>Removal\<close>



subsection \<open>The batch loop and the exit status\<close>








subsection \<open>Rollback\<close>





subsection \<open>Conflicts\<close>





subsection \<open>Interactive conflict resolution\<close>





section \<open>The patterns on reservation blocks\<close>

subsection \<open>The first way through a pattern\<close>

lemma rep_greedy_max:
  assumes "\<forall>c\<in>set w. P c" "rest = [] \<or> \<not> P (hd rest)" "n \<le> length w"
    "k (rev w @ pre, rest, g) \<noteq> None"
  shows "rep_greedy P n k pre (w @ rest) g = k (rev w @ pre, rest, g)"
  using assms
proof (induction w arbitrary: pre n)
  case Nil
  then show ?case by (cases rest) auto
next
  case (Cons c w)
  have "rep_greedy P (n - 1) k (c # pre) (w @ rest) g = k (rev w @ c # pre, rest, g)"
    using Cons.prems by (intro Cons.IH) auto
  then show ?case using Cons.prems by (auto split: option.splits)
qed

lemma fp_Eps: "first_path Eps st st"
  by (simp add: first_path_def)

lemma fp_Cls: "P c \<Longrightarrow> first_path (Cls P) (p, c # cs, g) (c # p, cs, g)"
  by (simp add: first_path_def)

lemma fp_Seq: "first_path a st s1 \<Longrightarrow> first_path b s1 s2 \<Longrightarrow> first_path (Seq a b) st s2"
  by (simp add: first_path_def)

lemma fp_Grp:
  "first_path r (p, t, g) (p', t', g') \<Longrightarrow>
   first_path (Grp i r) (p, t, g) (p', t', g'(i \<mapsto> (length p, length p')))"
  by (simp add: first_path_def)

lemma fp_greedy:
  "\<forall>c\<in>set w. P c \<Longrightarrow> rest = [] \<or> \<not> P (hd rest) \<Longrightarrow> n \<le> length w \<Longrightarrow>
   first_path (Rep True n P) (p, w @ rest, g) (rev w @ p, rest, g)"
  by (simp add: first_path_def rep_greedy_max)

lemma rx_match_lit_ci:
  "rx_match (lit_ci (map py_lower t)) k (p, t @ rest, g) = k (rev t @ p, rest, g)"
  by (induction t arbitrary: p) (simp_all add: lit_ci_def ci_eq_def)

lemma rx_match_lit: "rx_match (lit t) k (p, t @ rest, g) = k (rev t @ p, rest, g)"
  by (induction t arbitrary: p) (simp_all add: lit_def)

lemma fp_lit_ci:
  "map py_lower t = s \<Longrightarrow> first_path (lit_ci s) (p, t @ rest, g) (rev t @ p, rest, g)"
  using rx_match_lit_ci[of t] by (auto simp: first_path_def)

lemma fp_lit: "first_path (lit s) (p, s @ rest, g) (rev s @ p, rest, g)"
  by (simp add: first_path_def rx_match_lit)

lemma rep_lazy_skip:
  assumes "\<forall>x\<in>set w. P x \<and> (\<forall>p xs g. k (p, x # xs, g) = None)"
  shows "rep_lazy P 0 k p (w @ rest) g = rep_lazy P 0 k (rev w @ p) rest g"
  using assms by (induction w arbitrary: p) auto

lemma rep_lazy_hit: "k (p, rest, g) \<noteq> None \<Longrightarrow> rep_lazy P 0 k p rest g = k (p, rest, g)"
  by (cases rest) auto

lemma fp_lazy_Seq:
  assumes "\<forall>x\<in>set w. P x \<and> rejects b x" and "first_path b (rev w @ p, rest, g) st'"
  shows "first_path (Seq (Rep False 0 P) b) (p, w @ rest, g) st'"
  unfolding first_path_def
proof (intro allI impI)
  fix k :: "mstate \<Rightarrow> mstate option"
  assume k: "k st' \<noteq> None"
  have b: "rx_match b k (rev w @ p, rest, g) = k st'"
    using assms(2) k by (simp add: first_path_def)
  have "rep_lazy P 0 (rx_match b k) p (w @ rest) g = rep_lazy P 0 (rx_match b k) (rev w @ p) rest g"
    by (rule rep_lazy_skip) (use assms(1) in \<open>auto simp: rejects_def\<close>)
  also have "\<dots> = rx_match b k (rev w @ p, rest, g)"
    by (rule rep_lazy_hit) (simp add: b k)
  finally show "rx_match (Seq (Rep False 0 P) b) k (p, w @ rest, g) = k st'"
    using b by simp
qed

lemma rejects_Cls: "\<not> Q x \<Longrightarrow> rejects (Cls Q) x"
  by (simp add: rejects_def)

lemma rejects_Seq: "rejects a x \<Longrightarrow> rejects (Seq a b) x"
  by (simp add: rejects_def)

lemma rejects_lit_ci: "py_lower x \<noteq> c \<Longrightarrow> rejects (lit_ci (c # s)) x"
  by (simp add: rejects_def lit_ci_def ci_eq_def)

lemma space_facts:
  assumes "is_space c"
  shows "not_close c" "py_lower c = c" "c \<noteq> CHR ''h''" "c \<noteq> CHR ''f''" "c \<noteq> CHR ''}''"
    "c \<noteq> CHR ''{''" "c \<noteq> CHR '';''" "\<not> hexcolon_ci c" "\<not> digit_dot c"
  using assms
  by (auto simp: is_space_def not_close_def py_lower_def hexcolon_ci_def digit_dot_def is_digit_def)

lemma hexcolon_not_space: "hexcolon_ci c \<Longrightarrow> \<not> is_space c"
  by (auto simp: is_space_def hexcolon_ci_def)

lemma digit_dot_not_space: "digit_dot c \<Longrightarrow> \<not> is_space c"
  by (auto simp: is_space_def digit_dot_def is_digit_def)

lemma fp_Chr_app: "P c \<Longrightarrow> first_path (Cls P) (p, [c] @ rest, g) (rev [c] @ p, rest, g)"
  using fp_Cls[of P c p rest g] by simp

lemma stop_hd: "w \<noteq> [] \<Longrightarrow> \<forall>c\<in>set w. Q c \<Longrightarrow> (\<And>c. Q c \<Longrightarrow> \<not> P c) \<Longrightarrow>
   w @ r = [] \<or> \<not> P (hd (w @ r))"
  by (cases w) auto

lemma stop_hd2: "\<forall>c\<in>set w. Q c \<Longrightarrow> (\<And>c. Q c \<Longrightarrow> \<not> P c) \<Longrightarrow> \<not> P c0 \<Longrightarrow>
   w @ [c0] @ r = [] \<or> \<not> P (hd (w @ [c0] @ r))"
  by (cases w) auto

lemma stop_lit: "\<not> P c0 \<Longrightarrow> (c0 # s) @ r = [] \<or> \<not> P (hd ((c0 # s) @ r))"
  by simp

lemma len1: "w \<noteq> [] \<Longrightarrow> 1 \<le> length w"
  by (cases w) auto

lemma layout_first_path:
  assumes w1: "w1 \<noteq> []" "\<forall>c\<in>set w1. is_space c"
    and F: "F \<noteq> []" "\<forall>c\<in>set F. \<not> is_space c"
    and w2: "w2 \<noteq> []" "\<forall>c\<in>set w2. is_space c"
    and w3: "\<forall>c\<in>set w3. is_space c"
    and w4: "w4 \<noteq> []" "\<forall>c\<in>set w4. is_space c"
    and w5: "w5 \<noteq> []" "\<forall>c\<in>set w5. is_space c"
    and M: "M \<noteq> []" "\<forall>c\<in>set M. hexcolon_ci c"
    and w6: "\<forall>c\<in>set w6. is_space c"
    and w7: "\<forall>c\<in>set w7. is_space c"
    and w8: "w8 \<noteq> []" "\<forall>c\<in>set w8. is_space c"
    and I: "I \<noteq> []" "\<forall>c\<in>set I. digit_dot c"
    and w9: "\<forall>c\<in>set w9. is_space c"
    and w10: "\<forall>c\<in>set w10. is_space c"
  shows "\<exists>p' g'. first_path reservation_pattern
     (p, ''host'' @ w1 @ F @ w2 @ ''{'' @ w3 @ ''hardware'' @ w4 @ ''ethernet'' @ w5 @ M @ w6 @
         '';'' @ w7 @ ''fixed-address'' @ w8 @ I @ w9 @ '';'' @ w10 @ ''}'' @ post, g)
     (p', post, g')
     \<and> p' = rev (''host'' @ w1 @ F @ w2 @ ''{'' @ w3 @ ''hardware'' @ w4 @ ''ethernet'' @ w5 @ M @ w6 @
         '';'' @ w7 @ ''fixed-address'' @ w8 @ I @ w9 @ '';'' @ w10 @ ''}'') @ p
     \<and> g' 1 = Some (length (rev p @ ''host'' @ w1), length (rev p @ ''host'' @ w1 @ F))
     \<and> g' 2 = Some (length (rev p @ ''host'' @ w1 @ F @ w2 @ ''{'' @ w3 @ ''hardware'' @ w4 @ ''ethernet'' @ w5),
                     length (rev p @ ''host'' @ w1 @ F @ w2 @ ''{'' @ w3 @ ''hardware'' @ w4 @ ''ethernet'' @ w5 @ M))
     \<and> g' 3 = Some (length (rev p @ ''host'' @ w1 @ F @ w2 @ ''{'' @ w3 @ ''hardware'' @ w4 @ ''ethernet'' @ w5 @ M @ w6 @
         '';'' @ w7 @ ''fixed-address'' @ w8),
                     length (rev p @ ''host'' @ w1 @ F @ w2 @ ''{'' @ w3 @ ''hardware'' @ w4 @ ''ethernet'' @ w5 @ M @ w6 @
         '';'' @ w7 @ ''fixed-address'' @ w8 @ I))
     \<and> (\<forall>i. i \<notin> {1, 2, 3} \<longrightarrow> g' i = g i)"
  unfolding reservation_pattern_def seqs.simps
  apply (intro exI conjI)
       apply (rule fp_Seq, rule fp_lit_ci, simp add: py_lower_def)
       apply (rule fp_Seq, rule fp_greedy, rule w1, rule stop_hd[OF F], simp, rule len1[OF w1(1)])
       apply (rule fp_Seq, rule fp_Grp, rule fp_greedy, simp add: non_space_def F, rule stop_hd[OF w2], simp add: non_space_def, rule len1[OF F(1)])
       apply (rule fp_Seq, rule fp_greedy, rule w2, rule stop_lit, simp add: is_space_def, simp)
       apply (rule fp_Seq, rule fp_Chr_app, simp)
       apply (rule fp_lazy_Seq)
        apply (intro ballI conjI rejects_Seq rejects_lit_ci)
         apply (simp add: space_facts w3)
        apply (simp add: space_facts w3)
       apply (rule fp_Seq, rule fp_lit_ci, simp add: py_lower_def)
       apply (rule fp_Seq, rule fp_greedy, rule w4, rule stop_lit, simp add: is_space_def, rule len1[OF w4(1)])
       apply (rule fp_Seq, rule fp_lit_ci, simp add: py_lower_def)
       apply (rule fp_Seq, rule fp_greedy, rule w5, rule stop_hd[OF M], erule hexcolon_not_space, rule len1[OF w5(1)])
       apply (rule fp_Seq, rule fp_Grp, rule fp_greedy, rule M, rule stop_hd2[OF w6], erule space_facts, simp add: hexcolon_ci_def, rule len1[OF M(1)])
       apply (rule fp_Seq, rule fp_greedy, rule w6, rule stop_lit, simp add: is_space_def, simp)
       apply (rule fp_Seq, rule fp_Chr_app, simp)
       apply (rule fp_lazy_Seq)
        apply (intro ballI conjI rejects_Seq rejects_lit_ci)
         apply (simp add: space_facts w7)
        apply (simp add: space_facts w7)
       apply (rule fp_Seq, rule fp_lit_ci, simp add: py_lower_def)
       apply (rule fp_Seq, rule fp_greedy, rule w8, rule stop_hd[OF I], erule digit_dot_not_space, rule len1[OF w8(1)])
       apply (rule fp_Seq, rule fp_Grp, rule fp_greedy, rule I, rule stop_hd2[OF w9], erule space_facts, simp add: digit_dot_def is_digit_def, rule len1[OF I(1)])
       apply (rule fp_Seq, rule fp_greedy, rule w9, rule stop_lit, simp add: is_space_def, simp)
       apply (rule fp_Seq, rule fp_Chr_app, simp)
       apply (rule fp_lazy_Seq)
        apply (intro ballI conjI rejects_Seq rejects_Cls)
         apply (simp add: space_facts w10)
        apply (simp add: space_facts w10)
       apply (rule fp_Seq, rule fp_Chr_app, simp)
       apply (rule fp_Eps)
      apply simp_all
  done

lemma mgroup_span:
  "g i = Some (length A, length (A @ X)) \<Longrightarrow> rev pf = A @ X @ B \<Longrightarrow> mgroup (pf, r, g) i = X"
  by (simp add: mgroup_def)

lemma fp_match:
  "first_path r (p, t, g) (p', t', g') \<Longrightarrow>
   rx_match (Grp 0 r) Some (p, t, g) = Some (p', t', g'(0 \<mapsto> (length p, length p')))"
  using fp_Grp[of r p t g p' t' g' 0] by (simp add: first_path_def)

lemma scan_hit: "rx_match (Grp 0 r) Some (p, t, Map.empty) = Some m \<Longrightarrow> rx_scan r p t = Some m"
  by (cases t) auto


lemma rx_iter_single:
  "rx_scan r p t = Some m \<Longrightarrow> length (fst (snd m)) < length t \<Longrightarrow>
   rx_scan r (fst m) (fst (snd m)) = None \<Longrightarrow> rx_iter r p t = [m]"
proof -
  assume a: "rx_scan r p t = Some m" "length (fst (snd m)) < length t"
    "rx_scan r (fst m) (fst (snd m)) = None"
  have "rx_iter r (fst m) (fst (snd m)) = []"
    by (subst rx_iter.simps) (simp add: a)
  then show ?thesis
    by (subst rx_iter.simps) (simp add: a)
qed

lemma layout_match:
  assumes ws: "layout_ok ws"
    and F: "F \<noteq> []" "\<forall>c\<in>set F. \<not> is_space c"
    and M: "M \<noteq> []" "\<forall>c\<in>set M. hexcolon_ci c"
    and I: "I \<noteq> []" "\<forall>c\<in>set I. digit_dot c"
  shows "\<exists>g. rx_scan reservation_pattern p (block_layout ws F M I @ post) =
           Some (rev (block_layout ws F M I) @ p, post, g) \<and>
         match_triple (rev (block_layout ws F M I) @ p, post, g) = (F, lower M, I)"
proof -
  obtain w1 w2 w3 w4 w5 w6 w7 w8 w9 w10 where wsd: "ws = [w1, w2, w3, w4, w5, w6, w7, w8, w9, w10]"
    using ws unfolding layout_ok_def
    by (auto simp: length_Suc_conv eval_nat_numeral)
  have sp: "\<forall>c\<in>set w1. is_space c" "\<forall>c\<in>set w2. is_space c" "\<forall>c\<in>set w3. is_space c"
     "\<forall>c\<in>set w4. is_space c" "\<forall>c\<in>set w5. is_space c" "\<forall>c\<in>set w6. is_space c"
     "\<forall>c\<in>set w7. is_space c" "\<forall>c\<in>set w8. is_space c" "\<forall>c\<in>set w9. is_space c"
     "\<forall>c\<in>set w10. is_space c"
    and ne: "w1 \<noteq> []" "w2 \<noteq> []" "w4 \<noteq> []" "w5 \<noteq> []" "w8 \<noteq> []"
    using ws unfolding layout_ok_def wsd by (simp_all add: list_all_iff)
  let ?b = "block_layout ws F M I"
  have bdef: "?b = ''host'' @ w1 @ F @ w2 @ ''{'' @ w3 @ ''hardware'' @ w4 @ ''ethernet'' @ w5 @ M @ w6 @
         '';'' @ w7 @ ''fixed-address'' @ w8 @ I @ w9 @ '';'' @ w10 @ ''}''"
    by (simp add: block_layout_def wsd)
  from layout_first_path[OF ne(1) sp(1) F ne(2) sp(2) sp(3) ne(3) sp(4) ne(4) sp(5) M sp(6) sp(7)
      ne(5) sp(8) I sp(9) sp(10), of p post Map.empty]
  obtain p' g' where fp: "first_path reservation_pattern (p, ?b @ post, Map.empty) (p', post, g')"
    and p': "p' = rev ?b @ p"
    and g1: "g' 1 = Some (length (rev p @ ''host'' @ w1), length (rev p @ ''host'' @ w1 @ F))"
    and g2: "g' 2 = Some (length (rev p @ ''host'' @ w1 @ F @ w2 @ ''{'' @ w3 @ ''hardware'' @ w4 @ ''ethernet'' @ w5),
                     length (rev p @ ''host'' @ w1 @ F @ w2 @ ''{'' @ w3 @ ''hardware'' @ w4 @ ''ethernet'' @ w5 @ M))"
    and g3: "g' 3 = Some (length (rev p @ ''host'' @ w1 @ F @ w2 @ ''{'' @ w3 @ ''hardware'' @ w4 @ ''ethernet'' @ w5 @ M @ w6 @
         '';'' @ w7 @ ''fixed-address'' @ w8),
                     length (rev p @ ''host'' @ w1 @ F @ w2 @ ''{'' @ w3 @ ''hardware'' @ w4 @ ''ethernet'' @ w5 @ M @ w6 @
         '';'' @ w7 @ ''fixed-address'' @ w8 @ I))"
    unfolding bdef append_assoc by blast
  let ?g = "g'(0 \<mapsto> (length p, length p'))"
  have "rx_scan reservation_pattern p (?b @ post) = Some (p', post, ?g)"
    by (rule scan_hit[OF fp_match[OF fp]])
  moreover have "mgroup (p', post, ?g) 1 = F"
    by (rule mgroup_span[where A = "rev p @ ''host'' @ w1"]) (use g1 in \<open>simp_all add: p' bdef\<close>)
  moreover have "mgroup (p', post, ?g) 2 = M"
    by (rule mgroup_span[where A = "rev p @ ''host'' @ w1 @ F @ w2 @ ''{'' @ w3 @ ''hardware'' @ w4 @ ''ethernet'' @ w5"])
       (use g2 in \<open>simp_all add: p' bdef\<close>)
  moreover have "mgroup (p', post, ?g) 3 = I"
    by (rule mgroup_span[where A = "rev p @ ''host'' @ w1 @ F @ w2 @ ''{'' @ w3 @ ''hardware'' @ w4 @ ''ethernet'' @ w5 @ M @ w6 @
         '';'' @ w7 @ ''fixed-address'' @ w8"])
       (use g3 in \<open>simp_all add: p' bdef\<close>)
  ultimately show ?thesis
    unfolding p' by (intro exI[of _ ?g]) (simp add: match_triple_def p')
qed

subsection \<open>Normalized MACs and names\<close>

lemma scan_short_none: "rx_scan reservation_pattern p [nl] = None"
  by (simp add: reservation_pattern_def lit_ci_def ci_eq_def py_lower_def)

lemma seqs_Cls_match:
  "rx_match (seqs (map Cls Ps)) k (p, t, g) \<noteq> None \<Longrightarrow>
   \<exists>t1 t2. t = t1 @ t2 \<and> list_all2 (\<lambda>P c. P c) Ps t1 \<and> k (rev t1 @ p, t2, g) \<noteq> None"
proof (induction Ps arbitrary: p t)
  case Nil
  then show ?case by auto
next
  case (Cons P Ps)
  then obtain c cs where t: "t = c # cs" "P c"
    and m: "rx_match (seqs (map Cls Ps)) k (c # p, cs, g) \<noteq> None"
    by (cases t) (auto split: if_splits)
  from Cons.IH[OF m] obtain t1 t2 where "cs = t1 @ t2" "list_all2 (\<lambda>P c. P c) Ps t1"
    "k (rev t1 @ c # p, t2, g) \<noteq> None" by blast
  then show ?case using t
    by (intro exI[of _ "c # t1"] exI[of _ t2]) auto
qed

lemma mac_pattern_unfold:
  "mac_pattern = seqs (map Cls [is_hex, is_hex, \<lambda>x. x = CHR '':'', is_hex, is_hex,
      \<lambda>x. x = CHR '':'', is_hex, is_hex, \<lambda>x. x = CHR '':'', is_hex, is_hex,
      \<lambda>x. x = CHR '':'', is_hex, is_hex, \<lambda>x. x = CHR '':'', is_hex, is_hex])"
  unfolding mac_pattern_def by (simp add: eval_nat_numeral del: seqs.simps)

lemma fullmatch_mac:
  assumes "rx_fullmatch mac_pattern m"
  shows "m \<noteq> [] \<and> (\<forall>c\<in>set m. is_hex c \<or> c = CHR '':'')"
proof -
  let ?Ps = "[is_hex, is_hex, \<lambda>x. x = CHR '':'', is_hex, is_hex,
      \<lambda>x. x = CHR '':'', is_hex, is_hex, \<lambda>x. x = CHR '':'', is_hex, is_hex,
      \<lambda>x. x = CHR '':'', is_hex, is_hex, \<lambda>x. x = CHR '':'', is_hex, is_hex]"
  let ?k = "\<lambda>(pre, rest, g :: spans). if rest = [] then Some () else None"
  have "rx_match (seqs (map Cls ?Ps)) ?k ([], m, Map.empty) \<noteq> None"
    using assms unfolding rx_fullmatch_def mac_pattern_unfold .
  from seqs_Cls_match[OF this] obtain t1 t2 where t: "m = t1 @ t2"
    "list_all2 (\<lambda>P c. P c) ?Ps t1" "?k (rev t1 @ [], t2, Map.empty) \<noteq> None"
    by blast
  from t(3) have "t2 = []" by (simp split: if_splits)
  with t(1) have m: "m = t1" by simp
  from t(2) show ?thesis unfolding m
    by (auto simp: list_all2_Cons1)
qed

lemma hex_hexcolon: "is_hex c \<or> c = CHR '':'' \<Longrightarrow> hexcolon_ci c"
  by (auto simp: is_hex_def hexcolon_ci_def)

lemma hex_lower_all: "list_all (\<lambda>c. py_lower c = c) ''0123456789abcdef:''"
  by code_simp

lemma hex_lower: "is_hex c \<or> c = CHR '':'' \<Longrightarrow> py_lower c = c"
  using hex_lower_all unfolding is_hex_def list_all_iff by auto

lemma normalized_mac_facts:
  assumes "normalize_mac m = Some m'"
  shows "m' \<noteq> []" "\<forall>c\<in>set m'. hexcolon_ci c" "lower m' = m'"
proof -
  have "rx_fullmatch mac_pattern m'"
    using assms by (auto simp: normalize_mac_def Let_def split: if_splits)
  from fullmatch_mac[OF this] have ne: "m' \<noteq> []" and h: "\<forall>c\<in>set m'. is_hex c \<or> c = CHR '':''"
    by blast+
  show "m' \<noteq> []" by (rule ne)
  show "\<forall>c\<in>set m'. hexcolon_ci c" using h hex_hexcolon by blast
  show "lower m' = m'" unfolding lower_def by (rule map_idI) (use h hex_lower in blast)
qed

lemma fqdn_plain:
  assumes "h \<noteq> []" "\<forall>c\<in>set h. \<not> is_space c" "\<forall>c\<in>set (or_empty d). \<not> is_space c"
  shows "fqdn_of h d \<noteq> []" "\<forall>c\<in>set (fqdn_of h d). \<not> is_space c"
proof -
  have dot: "\<not> is_space CHR ''.''" by (simp add: is_space_def)
  show "fqdn_of h d \<noteq> []" using assms(1) by (simp add: fqdn_of_def split: option.splits)
  show "\<forall>c\<in>set (fqdn_of h d). \<not> is_space c"
    using assms(2,3) dot by (auto simp: fqdn_of_def or_empty_def split: option.splits)
qed

lemma canonical_layout: "layout_ok canonical_ws"
  by (simp add: layout_ok_def canonical_ws_def is_space_def)

lemma build_as_layout:
  "build_reservation_block h m i d = block_layout canonical_ws (fqdn_of h d) m i @ [nl]"
  by (simp add: build_reservation_block_def block_layout_def canonical_ws_def)


text \<open>
  C5, as the code has it. For a hostname and a domain without white space, a normalized MAC
  and an address made of digits and dots, the block that \<^verbatim>\<open>build_reservation_block\<close>
  writes is read back by \<^verbatim>\<open>extract_all_reservations\<close> as exactly that one reservation.
\<close>

theorem export_round_trip:
  assumes "h \<noteq> []" "\<forall>c\<in>set h. \<not> is_space c" "\<forall>c\<in>set (or_empty d). \<not> is_space c"
    and "normalize_mac m = Some m"
    and "i \<noteq> []" "\<forall>c\<in>set i. digit_dot c"
  shows "extract_all_reservations (build_reservation_block h m i d) = [(fqdn_of h d, m, i)]"
proof -
  let ?b = "block_layout canonical_ws (fqdn_of h d) m i"
  note mf = normalized_mac_facts[OF assms(4)]
  from layout_match[OF canonical_layout fqdn_plain[OF assms(1-3)] mf(1,2) assms(5,6), of "[]" "[nl]"]
  obtain g where s: "rx_scan reservation_pattern [] (?b @ [nl]) = Some (rev ?b @ [], [nl], g)"
    and t: "match_triple (rev ?b @ [], [nl], g) = (fqdn_of h d, lower m, i)"
    by blast
  have "rx_iter reservation_pattern [] (?b @ [nl]) = [(rev ?b @ [], [nl], g)]"
  proof (rule rx_iter_single[OF s])
    show "length (fst (snd (rev ?b @ [], [nl], g))) < length (?b @ [nl])"
      by (simp add: block_layout_def)
    show "rx_scan reservation_pattern (fst (rev ?b @ [], [nl], g)) (fst (snd (rev ?b @ [], [nl], g))) = None"
      by (simp only: fst_conv snd_conv scan_short_none)
  qed
  then show ?thesis using t mf(3)
    by (simp add: extract_all_reservations_def rx_finditer_def build_as_layout)
qed



theorem export_round_trip_witness:
  "extract_all_reservations
     (build_reservation_block ''server01'' ''00:11:22:33:44:55'' ''192.168.1.100''
        (Some ''example.com'')) =
   [(''server01.example.com'', ''00:11:22:33:44:55'', ''192.168.1.100'')]"
proof -
  have 1: "''server01'' \<noteq> []" "\<forall>c\<in>set ''server01''. \<not> is_space c"
    "\<forall>c\<in>set (or_empty (Some ''example.com'')). \<not> is_space c"
    by (simp_all add: is_space_def or_empty_def)
  have 2: "normalize_mac ''00:11:22:33:44:55'' = Some ''00:11:22:33:44:55''" by code_simp
  have 3: "''192.168.1.100'' \<noteq> []" "\<forall>c\<in>set ''192.168.1.100''. digit_dot c"
    by (simp_all add: digit_dot_def is_digit_def)
  have 4: "fqdn_of ''server01'' (Some ''example.com'') = ''server01.example.com''" by code_simp
  show ?thesis using export_round_trip[OF 1 2 3] unfolding 4 .
qed

text \<open>The claim as stated fails for addresses that \<^verbatim>\<open>validate_ip_address\<close> accepts but
  the pattern does not read (a sign, a blank or an underscore), and for a domain with
  white space: the block that was written is not found.\<close>

theorem export_round_trip_counterexample:
  "validate_ip_address ''+1.2.3.4'' \<and> validate_ip_address ''1. 2.3.4'' \<and>
   normalize_mac ''aa:bb:cc:dd:ee:ff'' = Some ''aa:bb:cc:dd:ee:ff'' \<and>
   extract_all_reservations
     (build_reservation_block ''h'' ''aa:bb:cc:dd:ee:ff'' ''+1.2.3.4'' (Some ''example.com'')) = [] \<and>
   extract_all_reservations
     (build_reservation_block ''h'' ''aa:bb:cc:dd:ee:ff'' ''1. 2.3.4'' (Some ''example.com'')) = [] \<and>
   extract_all_reservations
     (build_reservation_block ''h'' ''aa:bb:cc:dd:ee:ff'' ''1.2.3.4'' (Some ''lab net'')) = []"
  by code_simp

end
